theory Spec2Isabelle
  imports Main "HOL-Library.Word"
begin

section \<open>JavaScript strings\<close>

text \<open>
  A JavaScript string is a sequence of UTF-16 code units. The regular expressions of
  \<^verbatim>\<open>generate-slides.js\<close> carry no \<^verbatim>\<open>u\<close> flag, so they too work on code units.
  ASCII literals of the source are written \<open>js ''...''\<close>; the other characters the
  source names (the em-dash, the bullet, the check mark) are given by their code unit.
\<close>

type_synonym jschar = "16 word"
type_synonym jsstring = "jschar list"

definition js :: "string \<Rightarrow> jsstring" where
  "js s = map of_char s"

abbreviation NL :: jschar where "NL \<equiv> 0x0A"
abbreviation SPACE :: jschar where "SPACE \<equiv> 0x20"
abbreviation BANG :: jschar where "BANG \<equiv> 0x21"
abbreviation DQUOTE :: jschar where "DQUOTE \<equiv> 0x22"
abbreviation AMP :: jschar where "AMP \<equiv> 0x26"
abbreviation SQUOTE :: jschar where "SQUOTE \<equiv> 0x27"
abbreviation LPAREN :: jschar where "LPAREN \<equiv> 0x28"
abbreviation RPAREN :: jschar where "RPAREN \<equiv> 0x29"
abbreviation COMMA :: jschar where "COMMA \<equiv> 0x2C"
abbreviation DOT :: jschar where "DOT \<equiv> 0x2E"
abbreviation COLON :: jschar where "COLON \<equiv> 0x3A"
abbreviation LT :: jschar where "LT \<equiv> 0x3C"
abbreviation GT :: jschar where "GT \<equiv> 0x3E"
abbreviation LBRACKET :: jschar where "LBRACKET \<equiv> 0x5B"
abbreviation RBRACKET :: jschar where "RBRACKET \<equiv> 0x5D"
abbreviation UNDERSCORE :: jschar where "UNDERSCORE \<equiv> 0x5F"
abbreviation EMDASH :: jschar where "EMDASH \<equiv> 0x2014"

text \<open>The class \<^verbatim>\<open>\d\<close>.\<close>

definition isDigit :: "jschar \<Rightarrow> bool" where
  "isDigit c = (0x30 \<le> c \<and> c \<le> 0x39)"

text \<open>
  The class \<^verbatim>\<open>\s\<close>, which is also what \<^verbatim>\<open>String.prototype.trim\<close> strips: the
  ECMAScript WhiteSpace and LineTerminator code points.
\<close>

definition isWhiteSpace :: "jschar \<Rightarrow> bool" where
  "isWhiteSpace c =
     (c = 0x09 \<or> c = 0x0A \<or> c = 0x0B \<or> c = 0x0C \<or> c = 0x0D \<or> c = 0x20 \<or> c = 0xA0
      \<or> c = 0x1680 \<or> (0x2000 \<le> c \<and> c \<le> 0x200A) \<or> c = 0x2028 \<or> c = 0x2029
      \<or> c = 0x202F \<or> c = 0x205F \<or> c = 0x3000 \<or> c = 0xFEFF)"

definition trim :: "jsstring \<Rightarrow> jsstring" where
  "trim s = rev (dropWhile isWhiteSpace (rev (dropWhile isWhiteSpace s)))"

definition startsWith :: "jsstring \<Rightarrow> jsstring \<Rightarrow> bool" where
  "startsWith s p = (take (length p) s = p)"

text \<open>\<^verbatim>\<open>s.includes(p)\<close>: some suffix of \<open>s\<close> starts with \<open>p\<close>.\<close>

fun includesStr :: "jsstring \<Rightarrow> jsstring \<Rightarrow> bool" where
  "includesStr [] p = (p = [])"
| "includesStr (c # cs) p = (startsWith (c # cs) p \<or> includesStr cs p)"

text \<open>\<^verbatim>\<open>s.indexOf(c)\<close> for a one-character needle; \<open>-1\<close> when it is absent.\<close>

definition indexOf :: "jschar \<Rightarrow> jsstring \<Rightarrow> int" where
  "indexOf c s = (if c \<in> set s then int (length (takeWhile (\<lambda>x. x \<noteq> c) s)) else - 1)"

text \<open>
  \<^verbatim>\<open>s.substring(a, b)\<close> and \<^verbatim>\<open>s.substring(a)\<close>: negative arguments count as 0,
  arguments beyond the end as the length, and the two bounds are swapped when \<open>a > b\<close>.
\<close>

definition substring :: "jsstring \<Rightarrow> int \<Rightarrow> int \<Rightarrow> jsstring" where
  "substring s a b =
     (let lo = nat (min a b); hi = nat (max a b) in take (hi - lo) (drop lo s))"

definition substringFrom :: "jsstring \<Rightarrow> int \<Rightarrow> jsstring" where
  "substringFrom s a = drop (nat a) s"

text \<open>\<^verbatim>\<open>s.split(d)\<close> for a one-character separator: never the empty array.\<close>

fun splitOn :: "jschar \<Rightarrow> jsstring \<Rightarrow> jsstring list" where
  "splitOn d [] = [[]]"
| "splitOn d (c # cs) =
     (if c = d then [] # splitOn d cs
      else (case splitOn d cs of w # ws \<Rightarrow> (c # w) # ws | [] \<Rightarrow> [[c]]))"

text \<open>\<^verbatim>\<open>parts.join(sep)\<close>.\<close>

fun joinWith :: "jsstring \<Rightarrow> jsstring list \<Rightarrow> jsstring" where
  "joinWith sep [] = []"
| "joinWith sep [x] = x"
| "joinWith sep (x # y # ys) = x @ sep @ joinWith sep (y # ys)"

text \<open>Decimal rendering of a number in a template literal.\<close>

fun showNat :: "nat \<Rightarrow> jsstring" where
  "showNat n =
     (if n < 10 then [of_nat (48 + n)] else showNat (n div 10) @ [of_nat (48 + n mod 10)])"

declare showNat.simps [simp del]

section \<open>The slide model\<close>

text \<open>
  The objects \<^verbatim>\<open>parseMarkdown\<close> builds. A slide is
  \<^verbatim>\<open>{ type, title, content }\<close>; a lazily created content slide has no \<^verbatim>\<open>title\<close>
  property, which is \<open>None\<close> here. A content entry is an object tagged by its
  \<^verbatim>\<open>type\<close> property.
\<close>

datatype slideType = TitleSlide | SectionSlide | ContentSlide

datatype block =
    Code jsstring jsstring
  | Subtitle jsstring
  | ListItem jsstring
  | Stat jsstring jsstring
  | Image jsstring jsstring
  | TextBlock jsstring

record slide =
  stype :: slideType
  title :: "jsstring option"
  content :: "block list"

section \<open>parseMarkdown\<close>

text \<open>The variables of the loop in \<^verbatim>\<open>parseMarkdown\<close>.\<close>

record parser =
  slides :: "slide list"
  currentSlide :: "slide option"
  inCodeBlock :: bool
  codeBlockContent :: "jsstring list"
  codeBlockLang :: jsstring

definition initial :: parser where
  "initial = \<lparr>slides = [], currentSlide = None, inCodeBlock = False,
     codeBlockContent = [], codeBlockLang = []\<rparr>"

text \<open>
  \<^verbatim>\<open>if (!currentSlide) currentSlide = { type: 'content', content: [] };
  currentSlide.content.push(b)\<close>
\<close>

definition pushContent :: "block \<Rightarrow> slide option \<Rightarrow> slide option" where
  "pushContent b cur =
     (case cur of
        None \<Rightarrow> Some \<lparr>stype = ContentSlide, title = None, content = [b]\<rparr>
      | Some s \<Rightarrow> Some (s\<lparr>content := content s @ [b]\<rparr>))"

text \<open>
  \<^verbatim>\<open>if (currentSlide && currentSlide.content.length > 0) slides.push(currentSlide)\<close>:
  the array \<^verbatim>\<open>slides\<close> afterwards.
\<close>

definition pushSlide :: "parser \<Rightarrow> slide list" where
  "pushSlide st =
     (case currentSlide st of
        None \<Rightarrow> slides st
      | Some s \<Rightarrow> if content s \<noteq> [] then slides st @ [s] else slides st)"

text \<open>
  \<^verbatim>\<open>line.match(/^#\s+/)\<close>, \<^verbatim>\<open>/^##\s+/\<close> and \<^verbatim>\<open>/^###\s+/\<close>, with the hashes
  as \<open>marks\<close>, and the matching \<^verbatim>\<open>line.replace(/^#\s+/, '')\<close>.
\<close>

definition matchesHeader :: "jsstring \<Rightarrow> jsstring \<Rightarrow> bool" where
  "matchesHeader marks line =
     (startsWith line marks
      \<and> (case drop (length marks) line of [] \<Rightarrow> False | c # _ \<Rightarrow> isWhiteSpace c))"

definition stripHeader :: "jsstring \<Rightarrow> jsstring \<Rightarrow> jsstring" where
  "stripHeader marks line =
     (if matchesHeader marks line then dropWhile isWhiteSpace (drop (length marks) line)
      else line)"

text \<open>\<^verbatim>\<open>value.match(/[\d,]+/)\<close>: some character is a digit or a comma.\<close>

definition matchDigitsCommas :: "jsstring \<Rightarrow> bool" where
  "matchDigitsCommas v = list_ex (\<lambda>c. isDigit c \<or> c = COMMA) v"

text \<open>
  The key-value branch. It falls through (\<open>None\<close>) when either of its two conditions
  fails.
\<close>

definition statLine :: "bool \<Rightarrow> jsstring \<Rightarrow> block option" where
  "statLine inCode line =
     (if COLON \<in> set line \<and> \<not> startsWith line (js ''http'') \<and> \<not> inCode then
        (let colonIndex = indexOf COLON line;
             key = trim (substring line 0 colonIndex);
             val = trim (substringFrom line (colonIndex + 1))
         in if key \<noteq> [] \<and> val \<noteq> [] \<and> SPACE \<notin> set key \<and> matchDigitsCommas val
            then Some (Stat key val) else None)
      else None)"

text \<open>
  An attempt to match a regular expression at the start of a string gives the captures
  and the rest of the string behind the match; \<open>firstMatch\<close> tries every start
  position from the left, as an unanchored \<^verbatim>\<open>match\<close> does.
\<close>

fun firstMatch :: "(jsstring \<Rightarrow> 'a option) \<Rightarrow> jsstring \<Rightarrow> 'a option" where
  "firstMatch m [] = m []"
| "firstMatch m (c # cs) =
     (case m (c # cs) of Some r \<Rightarrow> Some r | None \<Rightarrow> firstMatch m cs)"

text \<open>
  \<open>opn\<close>, then the longest run of characters other than \<open>cls\<close>, then \<open>cls\<close>;
  the run is the capture. The run cannot be shortened by backtracking, since the
  character behind a shorter run is not \<open>cls\<close>. With \<open>nonEmpty\<close> this is
  \<^verbatim>\<open>\[([^\]]+)\]\<close> or \<^verbatim>\<open>\(([^)]+)\)\<close>, without it \<^verbatim>\<open>\[([^\]]*)\]\<close>.
\<close>

definition delimitedAt ::
  "bool \<Rightarrow> jschar \<Rightarrow> jschar \<Rightarrow> jsstring \<Rightarrow> (jsstring \<times> jsstring) option" where
  "delimitedAt nonEmpty opn cls s =
     (case s of
        [] \<Rightarrow> None
      | c # cs \<Rightarrow>
          if c = opn then
            (let run = takeWhile (\<lambda>x. x \<noteq> cls) cs; rest = dropWhile (\<lambda>x. x \<noteq> cls) cs
             in if (nonEmpty \<and> run = []) \<or> rest = [] then None else Some (run, tl rest))
          else None)"

text \<open>\<^verbatim>\<open>/!\[([^\]]*)\]\(([^)]+)\)/\<close> at the start of \<open>s\<close>: the captures alt and src.\<close>

definition imageAt :: "jsstring \<Rightarrow> (jsstring \<times> jsstring) option" where
  "imageAt s =
     (case s of
        [] \<Rightarrow> None
      | c # cs \<Rightarrow>
          if c = BANG then
            (case delimitedAt False LBRACKET RBRACKET cs of
               None \<Rightarrow> None
             | Some (alt, rest) \<Rightarrow>
                 (case delimitedAt True LPAREN RPAREN rest of
                    None \<Rightarrow> None
                  | Some (src, _) \<Rightarrow> Some (alt, src)))
          else None)"

text \<open>One iteration of \<^verbatim>\<open>for (let line of lines)\<close>.\<close>

definition step :: "parser \<Rightarrow> jsstring \<Rightarrow> parser" where
  "step st line =
     (if startsWith line (js ''```'') then
        (if \<not> inCodeBlock st then
           st\<lparr>inCodeBlock := True, codeBlockLang := trim (substringFrom line 3),
              codeBlockContent := []\<rparr>
         else
           st\<lparr>inCodeBlock := False,
              currentSlide :=
                pushContent (Code (codeBlockLang st) (joinWith [NL] (codeBlockContent st)))
                  (currentSlide st),
              codeBlockContent := [], codeBlockLang := []\<rparr>)
      else if inCodeBlock st then
        st\<lparr>codeBlockContent := codeBlockContent st @ [line]\<rparr>
      else if startsWith line (js ''slides:'') \<or> startsWith line (js ''Also share with'') then
        st
      else if trim line = js ''<hr>'' \<or> trim line = js ''---'' then
        st\<lparr>slides := pushSlide st, currentSlide := None\<rparr>
      else if matchesHeader (js ''#'') line then
        st\<lparr>slides := pushSlide st,
           currentSlide :=
             Some \<lparr>stype = TitleSlide, title = Some (trim (stripHeader (js ''#'') line)),
               content = []\<rparr>\<rparr>
      else if matchesHeader (js ''##'') line then
        st\<lparr>slides := pushSlide st,
           currentSlide :=
             Some \<lparr>stype = SectionSlide, title = Some (trim (stripHeader (js ''##'') line)),
               content = []\<rparr>\<rparr>
      else if matchesHeader (js ''###'') line then
        st\<lparr>currentSlide :=
             pushContent (Subtitle (trim (stripHeader (js ''###'') line))) (currentSlide st)\<rparr>
      else if startsWith line (js ''- '') then
        st\<lparr>currentSlide :=
             pushContent (ListItem (trim (substringFrom line 2))) (currentSlide st)\<rparr>
      else
        (case statLine (inCodeBlock st) line of
           Some b \<Rightarrow> st\<lparr>currentSlide := pushContent b (currentSlide st)\<rparr>
         | None \<Rightarrow>
             (case firstMatch imageAt line of
                Some (alt, src) \<Rightarrow>
                  st\<lparr>currentSlide := pushContent (Image alt src) (currentSlide st)\<rparr>
              | None \<Rightarrow>
                  if trim line \<noteq> [] then
                    st\<lparr>currentSlide := pushContent (TextBlock (trim line)) (currentSlide st)\<rparr>
                  else st)))"

text \<open>
  The whole function: split at line feeds, run the loop, and push the last slide
  under the same condition.
\<close>

definition parseLines :: "jsstring list \<Rightarrow> parser" where
  "parseLines ls = foldl step initial ls"

definition parseMarkdown :: "jsstring \<Rightarrow> slide list" where
  "parseMarkdown text = pushSlide (parseLines (splitOn NL text))"

section \<open>generateHTML\<close>

text \<open>
  What a call can throw: the \<^verbatim>\<open>TypeError\<close> of reading index 1 of a \<^verbatim>\<open>null\<close>
  match, and the errors of the file primitives.
\<close>

datatype error = TypeError | SystemError jsstring

text \<open>\<^verbatim>\<open>xs.forEach(f)\<close> with a body that may throw: the first throw ends the loop.\<close>

fun mapE :: "('a \<Rightarrow> error + 'b) \<Rightarrow> 'a list \<Rightarrow> error + 'b list" where
  "mapE f [] = Inr []"
| "mapE f (x # xs) =
     (case f x of
        Inl e \<Rightarrow> Inl e
      | Inr y \<Rightarrow> (case mapE f xs of Inl e \<Rightarrow> Inl e | Inr ys \<Rightarrow> Inr (y # ys)))"

subsection \<open>escapeHtml\<close>

definition escapeChar :: "jschar \<Rightarrow> jsstring" where
  "escapeChar c =
     (if c = AMP then js ''&amp;''
      else if c = LT then js ''&lt;''
      else if c = GT then js ''&gt;''
      else if c = DQUOTE then js ''&quot;''
      else if c = SQUOTE then js ''&#039;''
      else [c])"

definition escapeHtml :: "jsstring \<Rightarrow> jsstring" where
  "escapeHtml text = concat (map escapeChar text)"

subsection \<open>Grouping by type\<close>

datatype blockType = CodeT | SubtitleT | ListItemT | StatT | ImageT | TextT

fun typeOf :: "block \<Rightarrow> blockType" where
  "typeOf (Code _ _) = CodeT"
| "typeOf (Subtitle _) = SubtitleT"
| "typeOf (ListItem _) = ListItemT"
| "typeOf (Stat _ _) = StatT"
| "typeOf (Image _ _) = ImageT"
| "typeOf (TextBlock _) = TextT"

text \<open>\<^verbatim>\<open>slide.content.filter(c => c.type === t)\<close>\<close>

definition ofType :: "blockType \<Rightarrow> block list \<Rightarrow> block list" where
  "ofType t cs = filter (\<lambda>c. typeOf c = t) cs"

subsection \<open>Stat cards\<close>

text \<open>\<^verbatim>\<open>/\(([\d.]+%)\)/\<close> at the start of \<open>s\<close>: the capture.\<close>

definition percentAt :: "jsstring \<Rightarrow> jsstring option" where
  "percentAt s =
     (case s of
        [] \<Rightarrow> None
      | c # cs \<Rightarrow>
          if c = LPAREN then
            (let run = takeWhile (\<lambda>x. isDigit x \<or> x = DOT) cs;
                 rest = dropWhile (\<lambda>x. isDigit x \<or> x = DOT) cs
             in if run \<noteq> [] \<and> startsWith rest (js ''%)'') then Some (run @ js ''%'')
                else None)
          else None)"

text \<open>
  The body of \<^verbatim>\<open>stats.forEach\<close>. The functions of this section that take a block
  are only applied to blocks of the type they are written for, which the filters
  guarantee; their last equation is never reached.
\<close>

fun statCard :: "block \<Rightarrow> error + jsstring" where
  \<open>statCard (Stat key val) =
     (let hasPercentage = (includesStr val (js ''('') \<and> includesStr val (js ''%)''));
          mainValue = (if hasPercentage then trim (hd (splitOn LPAREN val)) else val)
      in case (if hasPercentage then
                 (case firstMatch percentAt val of
                    None \<Rightarrow> Inl TypeError
                  | Some p \<Rightarrow> Inr p)
               else Inr []) of
           Inl e \<Rightarrow> Inl e
         | Inr percentage \<Rightarrow>
             Inr (js ''                <div class="stat-card">'' @ [NL]
               @ js ''                    <span class="big-number">'' @ mainValue
               @ js ''</span>'' @ [NL]
               @ js ''                    <span>''
               @ map (\<lambda>c. if c = UNDERSCORE then SPACE else c) key
               @ js ''</span>'' @ [NL]
               @ (if percentage \<noteq> [] then
                    js ''                    <span class="percentage">('' @ percentage
                    @ js '')</span>'' @ [NL]
                  else [])
               @ js ''                </div>'' @ [NL]))\<close>
| \<open>statCard _ = Inr []\<close>

definition statsHtml :: "block list \<Rightarrow> error + jsstring" where
  \<open>statsHtml stats =
     (if stats \<noteq> [] then
        (case mapE statCard stats of
           Inl e \<Rightarrow> Inl e
         | Inr cards \<Rightarrow>
             Inr (js ''            <div class="stat-grid">'' @ [NL] @ concat cards
               @ js ''            </div>'' @ [NL]))
      else Inr [])\<close>

subsection \<open>List items\<close>

text \<open>\<^verbatim>\<open>item.text.includes(EMDASH) && /\d+/.test(item.text)\<close>\<close>

fun looksRanked :: "block \<Rightarrow> bool" where
  "looksRanked (ListItem text) = (EMDASH \<in> set text \<and> list_ex isDigit text)"
| "looksRanked _ = False"

text \<open>
  \<^verbatim>\<open>(\d+,?\d*)\<close> at the start of \<open>s\<close>: the match and the rest. All three parts are
  greedy and the pattern succeeds as soon as one digit is there.
\<close>

definition numberAt :: "jsstring \<Rightarrow> (jsstring \<times> jsstring) option" where
  "numberAt s =
     (let d1 = takeWhile isDigit s; r1 = dropWhile isDigit s
      in if d1 = [] then None
         else (case r1 of
                 [] \<Rightarrow> Some (d1, [])
               | c # r2 \<Rightarrow>
                   if c = COMMA
                   then Some (d1 @ [COMMA] @ takeWhile isDigit r2, dropWhile isDigit r2)
                   else Some (d1, r1)))"

lemma numberAt_shorter: "numberAt s = Some (m, r) \<Longrightarrow> length r < length s"
proof -
  assume h: "numberAt s = Some (m, r)"
  then have ne: "takeWhile isDigit s \<noteq> []"
    by (auto simp: numberAt_def Let_def split: if_splits)
  then have b: "length (dropWhile isDigit s) < length s"
    by (cases s) (auto simp: le_imp_less_Suc length_dropWhile_le split: if_splits)
  have "length r \<le> length (dropWhile isDigit s)"
  proof (cases "dropWhile isDigit s")
    case Nil
    with h ne show ?thesis
      by (auto simp: numberAt_def Let_def)
  next
    case (Cons c r2)
    have "length (dropWhile isDigit r2) \<le> length r2"
      by (simp add: length_dropWhile_le)
    then have "length (dropWhile isDigit r2) \<le> Suc (length r2)"
      by simp
    with h ne show ?thesis
      unfolding numberAt_def Let_def Cons by (auto split: if_splits)
  qed
  with b show ?thesis by simp
qed

text \<open>\<^verbatim>\<open>stats.replace(/(\d+,?\d*)/g, '<strong>$1</strong>')\<close>\<close>

function wrapNumbers :: "jsstring \<Rightarrow> jsstring" where
  "wrapNumbers [] = []"
| "wrapNumbers (c # cs) =
     (case numberAt (c # cs) of
        Some (m, rest) \<Rightarrow> js ''<strong>'' @ m @ js ''</strong>'' @ wrapNumbers rest
      | None \<Rightarrow> c # wrapNumbers cs)"
  by pat_completeness auto
termination
  by (relation "measure length") (auto dest: numberAt_shorter)

text \<open>
  \<^verbatim>\<open>/\[([^\]]+)\]\([^)]+\)/\<close> at the start of \<open>s\<close>: the capture and the rest.
\<close>

definition linkAt :: "jsstring \<Rightarrow> (jsstring \<times> jsstring) option" where
  "linkAt s =
     (case delimitedAt True LBRACKET RBRACKET s of
        None \<Rightarrow> None
      | Some (label, rest) \<Rightarrow>
          (case delimitedAt True LPAREN RPAREN rest of
             None \<Rightarrow> None
           | Some (_, rest') \<Rightarrow> Some (label, rest')))"

lemma delimitedAt_shorter: "delimitedAt b opn cls s = Some (m, r) \<Longrightarrow> length r < length s"
proof -
  have a: "length (tl (dropWhile P xs)) \<le> length xs" for P and xs :: jsstring
    using length_dropWhile_le [of P xs] by simp
  assume "delimitedAt b opn cls s = Some (m, r)"
  then show ?thesis
    using a by (cases s) (auto simp: delimitedAt_def Let_def le_imp_less_Suc split: if_splits)
qed

lemma linkAt_shorter: "linkAt s = Some (m, r) \<Longrightarrow> length r < length s"
  by (auto simp: linkAt_def split: option.splits prod.splits
      dest!: delimitedAt_shorter)

text \<open>
  \<^verbatim>\<open>text.replace(/\[([^\]]+)\]\([^)]+\)/g, '<span class="highlight">$1</span>')\<close>
\<close>

function stripLinks :: "jsstring \<Rightarrow> jsstring" where
  \<open>stripLinks [] = []\<close>
| \<open>stripLinks (c # cs) =
     (case linkAt (c # cs) of
        Some (label, rest) \<Rightarrow>
          js ''<span class="highlight">'' @ label @ js ''</span>'' @ stripLinks rest
      | None \<Rightarrow> c # stripLinks cs)\<close>
  by pat_completeness auto
termination
  by (relation "measure length") (auto dest: linkAt_shorter)

text \<open>
  \<^verbatim>\<open>text.replace(/^([^-]+)-/, '<span class="highlight">$1</span> -')\<close>, where the
  dash of the pattern and of the replacement is the em-dash.
\<close>

definition highlightLead :: "jsstring \<Rightarrow> jsstring" where
  \<open>highlightLead text =
     (let lead = takeWhile (\<lambda>x. x \<noteq> EMDASH) text; rest = dropWhile (\<lambda>x. x \<noteq> EMDASH) text
      in if lead \<noteq> [] \<and> rest \<noteq> [] then
           js ''<span class="highlight">'' @ lead @ js ''</span> '' @ [EMDASH] @ tl rest
         else text)\<close>

text \<open>The body of \<^verbatim>\<open>listItems.forEach\<close> in the grid branch.\<close>

fun topItem :: "block \<Rightarrow> error + jsstring" where
  \<open>topItem (ListItem text) =
     (let parts = map trim (splitOn EMDASH text)
      in if length parts = 2 then
           (let name = parts ! 0; stats = parts ! 1;
                isLink = includesStr name (js '']('')
            in case (if isLink then
                       (case firstMatch (delimitedAt True LBRACKET RBRACKET) name of
                          None \<Rightarrow> Inl TypeError
                        | Some (displayName, _) \<Rightarrow>
                            (case firstMatch (delimitedAt True LPAREN RPAREN) name of
                               None \<Rightarrow> Inl TypeError
                             | Some (href, _) \<Rightarrow> Inr (displayName, href)))
                     else Inr (name, [])) of
                 Inl e \<Rightarrow> Inl e
               | Inr (displayName, href) \<Rightarrow>
                   Inr (js ''                <div class="top-item">'' @ [NL]
                     @ (if href \<noteq> [] then
                          js ''                    <a href="'' @ href
                          @ js ''" class="domain">'' @ displayName @ js ''</a>'' @ [NL]
                        else
                          js ''                    <span style="color: #7878EF; font-weight: 700;">''
                          @ displayName @ js ''</span>'' @ [NL])
                     @ js ''                    <span>'' @ wrapNumbers stats
                     @ js ''</span>'' @ [NL]
                     @ js ''                </div>'' @ [NL]))
         else Inr [])\<close>
| \<open>topItem _ = Inr []\<close>

text \<open>The body of \<^verbatim>\<open>listItems.forEach\<close> in the plain branch.\<close>

fun plainItem :: "block \<Rightarrow> jsstring" where
  \<open>plainItem (ListItem text) =
     js ''                <li>'' @ stripLinks (highlightLead text) @ js ''</li>'' @ [NL]\<close>
| \<open>plainItem _ = []\<close>

definition isRankedList :: "block list \<Rightarrow> bool" where
  "isRankedList listItems = list_ex looksRanked listItems"

definition listHtml :: "block list \<Rightarrow> error + jsstring" where
  \<open>listHtml listItems =
     (if listItems \<noteq> [] then
        (if isRankedList listItems \<and> length listItems \<le> 6 then
           (case mapE topItem listItems of
              Inl e \<Rightarrow> Inl e
            | Inr items \<Rightarrow>
                Inr (js ''            <div class="top-list">'' @ [NL] @ concat items
                  @ js ''            </div>'' @ [NL]))
         else
           Inr (js ''            <ul>'' @ [NL] @ concat (map plainItem listItems)
             @ js ''            </ul>'' @ [NL]))
      else Inr [])\<close>

subsection \<open>Subtitles, paragraphs, code blocks, images\<close>

fun subtitleHtml :: "block \<Rightarrow> jsstring" where
  \<open>subtitleHtml (Subtitle text) = js ''            <h3>'' @ text @ js ''</h3>'' @ [NL]\<close>
| \<open>subtitleHtml _ = []\<close>

fun textHtml :: "block \<Rightarrow> jsstring" where
  \<open>textHtml (TextBlock text) = js ''            <p>'' @ text @ js ''</p>'' @ [NL]\<close>
| \<open>textHtml _ = []\<close>

text \<open>The variable \<^verbatim>\<open>codeText\<close> of \<^verbatim>\<open>codeBlocks.forEach\<close>.\<close>

definition terminalLine :: "jsstring \<Rightarrow> jsstring" where
  \<open>terminalLine line =
     (if startsWith line (js ''$'') then
        js ''<span class="terminal-prompt">'' @ line @ js ''</span>''
      else line)\<close>

definition codeText :: "jsstring \<Rightarrow> jsstring \<Rightarrow> jsstring" where
  "codeText lang text =
     (let escaped = escapeHtml text
      in if lang = js ''terminal''
         then joinWith [NL] (map terminalLine (splitOn NL escaped))
         else escaped)"

fun codeHtml :: "block \<Rightarrow> jsstring" where
  \<open>codeHtml (Code lang text) =
     js ''            <pre class="code-block''
     @ (if lang \<noteq> [] then js '' language-'' @ lang else [])
     @ js ''"><code>'' @ codeText lang text @ js ''</code></pre>'' @ [NL]\<close>
| \<open>codeHtml _ = []\<close>

fun imageHtml :: "block \<Rightarrow> jsstring" where
  \<open>imageHtml (Image alt src) =
     js ''            <img src="'' @ src @ js ''" alt="'' @ alt
     @ js ''" class="slide-image">'' @ [NL]\<close>
| \<open>imageHtml _ = []\<close>

subsection \<open>One slide\<close>

fun isTerminalCode :: "block \<Rightarrow> bool" where
  "isTerminalCode (Code lang _) = (lang = js ''terminal'')"
| "isTerminalCode _ = False"

text \<open>The truth value of \<^verbatim>\<open>slide.title\<close>: false for a missing and for an empty title.\<close>

definition hasTitle :: "slide \<Rightarrow> bool" where
  "hasTitle s = (case title s of None \<Rightarrow> False | Some t \<Rightarrow> t \<noteq> [])"

text \<open>
  The callback of \<^verbatim>\<open>slides.map\<close>, in three parts. \<open>slideHead\<close> is what the
  callback appends before the subtitles: the opening tags with the style classes, the
  title and the divider. \<^verbatim>\<open>String.prototype.toLowerCase\<close> is the host's Unicode case
  mapping and is a parameter.
\<close>

definition slideHead :: "(jsstring \<Rightarrow> jsstring) \<Rightarrow> slide \<Rightarrow> jsstring" where
  \<open>slideHead toLowerCase s =
     (let isPopQuizWarning =
            (case title s of
               None \<Rightarrow> False
             | Some t \<Rightarrow> t \<noteq> [] \<and> includesStr (toLowerCase t) (js ''pop quiz warning''));
          isTerminalSlide = (\<not> hasTitle s \<and> list_ex isTerminalCode (content s));
          texts = ofType TextT (content s)
      in js ''    <div class="slide''
         @ (if stype s = TitleSlide then js '' intro-slide'' else [])
         @ (if isPopQuizWarning then js '' pop-quiz-warning'' else [])
         @ (if isTerminalSlide then js '' terminal-slide'' else [])
         @ js ''">'' @ [NL]
         @ js ''        <div class="content">'' @ [NL]
         @ (case title s of
              None \<Rightarrow> []
            | Some t \<Rightarrow>
                if t \<noteq> [] then
                  (if stype s = TitleSlide
                   then js ''            <h1>'' @ t @ js ''</h1>'' @ [NL]
                   else js ''            <h2>'' @ t @ js ''</h2>'' @ [NL])
                else [])
         @ (if stype s = TitleSlide \<and> texts \<noteq> []
            then js ''            <div class="divider"></div>'' @ [NL] else []))\<close>

text \<open>
  \<open>slideFoot\<close> is what the callback appends behind the images; \<open>slideCount\<close> is
  \<^verbatim>\<open>slides.length\<close>.
\<close>

definition slideFoot :: "nat \<Rightarrow> nat \<Rightarrow> jsstring" where
  \<open>slideFoot slideCount index =
     js ''        </div>'' @ [NL]
     @ js ''        <img src="favicon.png" alt="Logo" class="slide-logo">'' @ [NL]
     @ js ''        <span class="slide-number">'' @ showNat (index + 1)
     @ js ''/'' @ showNat slideCount @ js ''</span>'' @ [NL]
     @ js ''    </div>'' @ [NL, NL]\<close>

text \<open>
  The whole callback. The two parts that may throw, the stat cards and the list, run in
  the order of the source; a throw discards the string built so far.
\<close>

definition slideFragment ::
  "(jsstring \<Rightarrow> jsstring) \<Rightarrow> nat \<Rightarrow> nat \<Rightarrow> slide \<Rightarrow> error + jsstring" where
  "slideFragment toLowerCase slideCount index s =
     (let stats = ofType StatT (content s);
          listItems = ofType ListItemT (content s);
          texts = ofType TextT (content s);
          subtitles = ofType SubtitleT (content s);
          images = ofType ImageT (content s);
          codeBlocks = ofType CodeT (content s)
      in case statsHtml stats of
           Inl e \<Rightarrow> Inl e
         | Inr statsPart \<Rightarrow>
             (case listHtml listItems of
                Inl e \<Rightarrow> Inl e
              | Inr listPart \<Rightarrow>
                  Inr (slideHead toLowerCase s
                    @ concat (map subtitleHtml subtitles)
                    @ statsPart @ listPart
                    @ concat (map textHtml texts)
                    @ concat (map codeHtml codeBlocks)
                    @ concat (map imageHtml images)
                    @ slideFoot slideCount index)))"

text \<open>\<^verbatim>\<open>const slideHTML = slides.map((slide, index) => ...).join('')\<close>\<close>

definition slideHTML :: "(jsstring \<Rightarrow> jsstring) \<Rightarrow> slide list \<Rightarrow> error + jsstring" where
  "slideHTML toLowerCase slideList =
     (case mapE (\<lambda>(index, s). slideFragment toLowerCase (length slideList) index s)
             (zip [0 ..< length slideList] slideList) of
        Inl e \<Rightarrow> Inl e
      | Inr fragments \<Rightarrow> Inr (concat fragments))"

text \<open>
  The document is a fixed template with two holes: the slide fragments and
  \<^verbatim>\<open>Date.now()\<close>. The three constant pieces of the template (markup, style sheet and
  script, some 590 lines) are parameters, as is the clock reading.
\<close>

record shell =
  docHead :: jsstring
  docMiddle :: jsstring
  docTail :: jsstring

definition generateHTML ::
  "(jsstring \<Rightarrow> jsstring) \<Rightarrow> shell \<Rightarrow> nat \<Rightarrow> slide list \<Rightarrow> error + jsstring" where
  "generateHTML toLowerCase sh now slideList =
     (case slideHTML toLowerCase slideList of
        Inl e \<Rightarrow> Inl e
      | Inr fragments \<Rightarrow>
          Inr (docHead sh @ fragments @ docMiddle sh @ showNat now @ docTail sh))"

section \<open>generateSlides\<close>

text \<open>
  The world a run acts on: the file system (of any type \<open>'fs\<close>), the clock, and the
  two console streams. The host's primitives are parameters: reading may throw;
  writing returns the file system it leaves behind and the error it threw, if any.
\<close>

record 'fs world =
  fileSystem :: 'fs
  clock :: nat
  consoleLog :: "jsstring list"
  consoleError :: "(jsstring \<times> error) list"

record 'fs host =
  toLowerCase :: "jsstring \<Rightarrow> jsstring"
  readFileSync :: "'fs \<Rightarrow> jsstring \<Rightarrow> error + jsstring"
  writeFileSync :: "'fs \<Rightarrow> jsstring \<Rightarrow> jsstring \<Rightarrow> 'fs \<times> error option"

definition MARKDOWN_FILE :: jsstring where
  "MARKDOWN_FILE = js ''text.md''"

definition OUTPUT_FILE :: jsstring where
  "OUTPUT_FILE = js ''index.html''"

text \<open>The \<^verbatim>\<open>catch\<close> block.\<close>

definition reportError :: "'fs world \<Rightarrow> error \<Rightarrow> 'fs world \<times> bool" where
  "reportError w e =
     (w\<lparr>consoleError := consoleError w @ [(js ''Error generating slides:'', e)]\<rparr>, False)"

definition generateSlides :: "'fs host \<Rightarrow> shell \<Rightarrow> 'fs world \<Rightarrow> 'fs world \<times> bool" where
  "generateSlides h sh w =
     (case readFileSync h (fileSystem w) MARKDOWN_FILE of
        Inl e \<Rightarrow> reportError w e
      | Inr markdown \<Rightarrow>
          (let parsed = parseMarkdown markdown
           in case generateHTML (toLowerCase h) sh (clock w) parsed of
                Inl e \<Rightarrow> reportError w e
              | Inr html \<Rightarrow>
                  (case writeFileSync h (fileSystem w) OUTPUT_FILE html of
                     (fs', Some e) \<Rightarrow> reportError (w\<lparr>fileSystem := fs'\<rparr>) e
                   | (fs', None) \<Rightarrow>
                       (w\<lparr>fileSystem := fs',
                          consoleLog := consoleLog w
                            @ [[0x2713] @ js '' Generated '' @ showNat (length parsed)
                               @ js '' slides in '' @ OUTPUT_FILE]\<rparr>,
                        True))))"

text \<open>
  The last branch of the script, taken without \<^verbatim>\<open>--watch\<close>: it calls
  \<^verbatim>\<open>generateSlides()\<close> and drops the result. Nothing sets an exit code and no
  exception escapes, so the process ends with status 0.
\<close>

definition singleShot :: "'fs host \<Rightarrow> shell \<Rightarrow> 'fs world \<Rightarrow> 'fs world \<times> nat" where
  "singleShot h sh w = (fst (generateSlides h sh w), 0)"

section \<open>The parser inside a fenced block\<close>

lemma step_inside_fence:
  "inCodeBlock st \<Longrightarrow> \<not> startsWith line (js ''```'') \<Longrightarrow>
     step st line = st\<lparr>codeBlockContent := codeBlockContent st @ [line]\<rparr>"
  by (simp add: step_def)

lemma step_open_fence:
  "\<not> inCodeBlock st \<Longrightarrow> startsWith line (js ''```'') \<Longrightarrow>
     step st line =
       st\<lparr>inCodeBlock := True, codeBlockLang := trim (substringFrom line 3),
          codeBlockContent := []\<rparr>"
  by (simp add: step_def)

lemma step_close_fence:
  "inCodeBlock st \<Longrightarrow> startsWith line (js ''```'') \<Longrightarrow>
     step st line =
       st\<lparr>inCodeBlock := False,
          currentSlide :=
            pushContent (Code (codeBlockLang st) (joinWith [NL] (codeBlockContent st)))
              (currentSlide st),
          codeBlockContent := [], codeBlockLang := []\<rparr>"
  by (simp add: step_def)

lemma foldl_step_inside_fence:
  "inCodeBlock st \<Longrightarrow> list_all (\<lambda>l. \<not> startsWith l (js ''```'')) body \<Longrightarrow>
     foldl step st body = st\<lparr>codeBlockContent := codeBlockContent st @ body\<rparr>"
proof (induction body arbitrary: st)
  case Nil
  then show ?case by simp
next
  case (Cons l body)
  then show ?case by (simp add: step_inside_fence)
qed

text \<open>
  Claim C4. Whatever the lines between an opening and a closing fence look like
  (headers, list markers, colons), the parser only collects them: after the opening
  fence and any number of lines that are not fence lines, the slides pushed so far and
  the open slide are those from before the fence, and the closing fence then adds
  exactly one code block, whose text is these lines joined by line feeds. So no
  subtitle, list-item or stat block ever comes from inside a fence.
\<close>

theorem fenced_block_is_one_code_block:
  "\<not> inCodeBlock st \<Longrightarrow> startsWith opening (js ''```'') \<Longrightarrow>
   list_all (\<lambda>l. \<not> startsWith l (js ''```'')) body \<Longrightarrow> startsWith closing (js ''```'') \<Longrightarrow>
     foldl step st (opening # body) =
        st\<lparr>inCodeBlock := True, codeBlockLang := trim (substringFrom opening 3),
           codeBlockContent := body\<rparr>
   \<and> foldl step st (opening # body @ [closing]) =
        st\<lparr>currentSlide :=
             pushContent (Code (trim (substringFrom opening 3)) (joinWith [NL] body))
               (currentSlide st),
           codeBlockContent := [], codeBlockLang := []\<rparr>"
  by (simp add: step_open_fence foldl_step_inside_fence step_close_fence)

theorem fenced_block_is_one_code_block_witness:
  "\<not> inCodeBlock initial
   \<and> list_all (\<lambda>l. \<not> startsWith l (js ''```'')) [js ''### a'', js ''- b'', js ''c: 1'']
   \<and> foldl step initial ([js ''```js''] @ [js ''### a'', js ''- b'', js ''c: 1''] @ [js ''```'']) =
     initial\<lparr>currentSlide :=
        Some \<lparr>stype = ContentSlide, title = None,
          content = [Code (js ''js'') (joinWith [NL] [js ''### a'', js ''- b'', js ''c: 1''])]\<rparr>,
        codeBlockContent := [], codeBlockLang := []\<rparr>"
proof -
  have a: "\<not> inCodeBlock initial" by (simp add: initial_def)
  have b: "startsWith (js ''```js'') (js ''```'')" by (simp add: startsWith_def js_def)
  have c: "list_all (\<lambda>l. \<not> startsWith l (js ''```'')) [js ''### a'', js ''- b'', js ''c: 1'']"
    by (simp add: startsWith_def js_def)
  have d: "startsWith (js ''```'') (js ''```'')" by (simp add: startsWith_def)
  have e: "trim (substringFrom (js ''```js'') 3) = js ''js''"
    by (simp add: trim_def substringFrom_def js_def isWhiteSpace_def)
  have f: "pushContent b (currentSlide initial)
             = Some \<lparr>stype = ContentSlide, title = None, content = [b]\<rparr>" for b
    by (simp add: initial_def pushContent_def)
  from fenced_block_is_one_code_block [OF a b c d, THEN conjunct2]
  have "foldl step initial ([js ''```js''] @ [js ''### a'', js ''- b'', js ''c: 1''] @ [js ''```'']) =
     initial\<lparr>currentSlide :=
        Some \<lparr>stype = ContentSlide, title = None,
          content = [Code (js ''js'') (joinWith [NL] [js ''### a'', js ''- b'', js ''c: 1''])]\<rparr>,
        codeBlockContent := [], codeBlockLang := []\<rparr>"
    by (simp only: e f append_Cons append_Nil)
  with a c show ?thesis by blast
qed

section \<open>Slide boundaries\<close>

text \<open>
  The conditions of the two kinds of boundary in \<^verbatim>\<open>parseMarkdown\<close>, and the slide
  a header line opens.
\<close>

definition isBreakLine :: "jsstring \<Rightarrow> bool" where
  "isBreakLine line = (trim line = js ''<hr>'' \<or> trim line = js ''---'')"





lemma startsWith_Nil [simp]: "startsWith s []"
  by (simp add: startsWith_def)


















section \<open>Stat lines\<close>

text \<open>
  The rules that \<^verbatim>\<open>parseMarkdown\<close> tries on a line outside a code block before it
  comes to the key-value rule.
\<close>

definition earlierRule :: "jsstring \<Rightarrow> bool" where
  "earlierRule line =
     (startsWith line (js ''```'') \<or> startsWith line (js ''slides:'')
      \<or> startsWith line (js ''Also share with'') \<or> isBreakLine line
      \<or> matchesHeader (js ''#'') line \<or> matchesHeader (js ''##'') line
      \<or> matchesHeader (js ''###'') line \<or> startsWith line (js ''- ''))"

text \<open>The trimmed text before the first colon of a line, and the trimmed text after it.\<close>

definition textBeforeColon :: "jsstring \<Rightarrow> jsstring" where
  "textBeforeColon line = trim (takeWhile (\<lambda>c. c \<noteq> COLON) line)"

definition textAfterColon :: "jsstring \<Rightarrow> jsstring" where
  "textAfterColon line = trim (drop 1 (dropWhile (\<lambda>c. c \<noteq> COLON) line))"

lemma colon_split:
  assumes "COLON \<in> set line"
  shows "trim (substring line 0 (indexOf COLON line)) = textBeforeColon line"
    and "trim (substringFrom line (indexOf COLON line + 1)) = textAfterColon line"
proof -
  let ?n = "length (takeWhile (\<lambda>c. c \<noteq> COLON) line)"
  from assms have i: "indexOf COLON line = int ?n"
    by (simp add: indexOf_def)
  have "substring line 0 (int ?n) = take ?n line"
    by (simp add: substring_def Let_def)
  also have "\<dots> = takeWhile (\<lambda>c. c \<noteq> COLON) line"
    by (rule takeWhile_eq_take [symmetric])
  finally show "trim (substring line 0 (indexOf COLON line)) = textBeforeColon line"
    by (simp add: i textBeforeColon_def)
  have "substringFrom line (int ?n + 1) = drop (Suc ?n) line"
    by (simp add: substringFrom_def nat_add_distrib)
  also have "\<dots> = drop 1 (dropWhile (\<lambda>c. c \<noteq> COLON) line)"
    by (simp add: dropWhile_eq_drop)
  finally show "trim (substringFrom line (indexOf COLON line + 1)) = textAfterColon line"
    by (simp add: i textAfterColon_def)
qed

lemma statLine_eq:
  "statLine False line =
     (if COLON \<in> set line \<and> \<not> startsWith line (js ''http'')
         \<and> textBeforeColon line \<noteq> [] \<and> textAfterColon line \<noteq> []
         \<and> SPACE \<notin> set (textBeforeColon line)
         \<and> list_ex (\<lambda>c. isDigit c \<or> c = COMMA) (textAfterColon line)
      then Some (Stat (textBeforeColon line) (textAfterColon line)) else None)"
  by (simp add: statLine_def Let_def colon_split matchDigitsCommas_def)

lemma step_later_rules:
  "\<not> inCodeBlock st \<Longrightarrow> \<not> earlierRule line \<Longrightarrow>
     step st line =
       (case statLine False line of
          Some b \<Rightarrow> st\<lparr>currentSlide := pushContent b (currentSlide st)\<rparr>
        | None \<Rightarrow>
            (case firstMatch imageAt line of
               Some (alt, src) \<Rightarrow>
                 st\<lparr>currentSlide := pushContent (Image alt src) (currentSlide st)\<rparr>
             | None \<Rightarrow>
                 if trim line \<noteq> [] then
                   st\<lparr>currentSlide := pushContent (TextBlock (trim line)) (currentSlide st)\<rparr>
                 else st))"
  by (simp add: step_def earlierRule_def isBreakLine_def)

lemma pushContent_inj: "pushContent b cur = pushContent b' cur \<Longrightarrow> b = b'"
  by (auto simp: pushContent_def split: option.splits dest: arg_cong [where f = content])

lemma pushContent_neq: "pushContent b cur \<noteq> cur"
proof (cases cur)
  case None
  then show ?thesis by (simp add: pushContent_def)
next
  case (Some s)
  have "length (content (s\<lparr>content := content s @ [b]\<rparr>)) \<noteq> length (content s)"
    by simp
  then have "s\<lparr>content := content s @ [b]\<rparr> \<noteq> s"
    by metis
  with Some show ?thesis by (simp add: pushContent_def)
qed

text \<open>
  Claim C2, amended. For a line outside a code block that matches no earlier rule:
  if it contains a colon, does not start with \<^verbatim>\<open>http\<close>, the trimmed text before the
  first colon is not empty and holds no space character, and the trimmed text after it
  is not empty and holds a digit, then the line becomes a stat block with that key and
  that value. Conversely a line that becomes a stat block contains a colon, does not
  start with \<^verbatim>\<open>http\<close>, its key and value are these two texts, both not empty, the
  key holds no space character, and the value holds a digit or a comma. The line
  \<^verbatim>\<open>packages: 9,080,774\<close> gives exactly one stat block, and
  \<^verbatim>\<open>Total packages: 9,080,774\<close> a text block.
\<close>

theorem stat_line_classification:
  "(\<not> inCodeBlock st \<longrightarrow> \<not> earlierRule line \<longrightarrow>
      COLON \<in> set line \<longrightarrow> \<not> startsWith line (js ''http'') \<longrightarrow>
      textBeforeColon line \<noteq> [] \<longrightarrow> SPACE \<notin> set (textBeforeColon line) \<longrightarrow>
      textAfterColon line \<noteq> [] \<longrightarrow> list_ex isDigit (textAfterColon line) \<longrightarrow>
        step st line =
          st\<lparr>currentSlide :=
               pushContent (Stat (textBeforeColon line) (textAfterColon line))
                 (currentSlide st)\<rparr>)
   \<and> (\<not> inCodeBlock st \<longrightarrow> \<not> earlierRule line \<longrightarrow>
        currentSlide (step st line) = pushContent (Stat k v) (currentSlide st) \<longrightarrow>
          COLON \<in> set line \<and> \<not> startsWith line (js ''http'')
          \<and> k = textBeforeColon line \<and> k \<noteq> [] \<and> SPACE \<notin> set k
          \<and> v = textAfterColon line \<and> v \<noteq> []
          \<and> list_ex (\<lambda>c. isDigit c \<or> c = COMMA) v)
   \<and> parseMarkdown (js ''packages: 9,080,774'')
        = [\<lparr>stype = ContentSlide, title = None,
             content = [Stat (js ''packages'') (js ''9,080,774'')]\<rparr>]
   \<and> parseMarkdown (js ''Total packages: 9,080,774'')
        = [\<lparr>stype = ContentSlide, title = None,
             content = [TextBlock (js ''Total packages: 9,080,774'')]\<rparr>]"
proof (intro conjI impI)
  assume a: "\<not> inCodeBlock st" "\<not> earlierRule line"
    and b: "COLON \<in> set line" "\<not> startsWith line (js ''http'')"
      "textBeforeColon line \<noteq> []" "SPACE \<notin> set (textBeforeColon line)"
      "textAfterColon line \<noteq> []" "list_ex isDigit (textAfterColon line)"
  from b(6) have "list_ex (\<lambda>c. isDigit c \<or> c = COMMA) (textAfterColon line)"
    by (auto simp: list_ex_iff)
  with b have "statLine False line = Some (Stat (textBeforeColon line) (textAfterColon line))"
    by (simp add: statLine_eq)
  with a show "step st line =
          st\<lparr>currentSlide :=
               pushContent (Stat (textBeforeColon line) (textAfterColon line))
                 (currentSlide st)\<rparr>"
    by (simp add: step_later_rules)
next
  assume a: "\<not> inCodeBlock st" "\<not> earlierRule line"
    and c: "currentSlide (step st line) = pushContent (Stat k v) (currentSlide st)"
  have s: "statLine False line = Some (Stat k v)"
  proof (cases "statLine False line")
    case (Some b)
    with a c have "pushContent b (currentSlide st) = pushContent (Stat k v) (currentSlide st)"
      by (simp add: step_later_rules)
    with Some show ?thesis by (simp add: pushContent_inj)
  next
    case None
    show ?thesis
    proof (cases "firstMatch imageAt line")
      case (Some m)
      with None a c
      have "pushContent (Image (fst m) (snd m)) (currentSlide st)
              = pushContent (Stat k v) (currentSlide st)"
        by (simp add: step_later_rules split: prod.splits)
      then show ?thesis by (auto dest: pushContent_inj)
    next
      case n: None
      show ?thesis
      proof (cases "trim line = []")
        case True
        with None n a c show ?thesis
          using pushContent_neq [of "Stat k v" "currentSlide st"]
          by (simp add: step_later_rules)
      next
        case False
        with None n a c
        have "pushContent (TextBlock (trim line)) (currentSlide st)
                = pushContent (Stat k v) (currentSlide st)"
          by (simp add: step_later_rules)
        then show ?thesis by (auto dest: pushContent_inj)
      qed
    qed
  qed
  then show "COLON \<in> set line" "\<not> startsWith line (js ''http'')"
    "k = textBeforeColon line" "k \<noteq> []" "SPACE \<notin> set k"
    "v = textAfterColon line" "v \<noteq> []" "list_ex (\<lambda>c. isDigit c \<or> c = COMMA) v"
    by (auto simp: statLine_eq split: if_splits)
next
  show "parseMarkdown (js ''packages: 9,080,774'')
        = [\<lparr>stype = ContentSlide, title = None,
             content = [Stat (js ''packages'') (js ''9,080,774'')]\<rparr>]"
    by code_simp
next
  show "parseMarkdown (js ''Total packages: 9,080,774'')
        = [\<lparr>stype = ContentSlide, title = None,
             content = [TextBlock (js ''Total packages: 9,080,774'')]\<rparr>]"
    by code_simp
qed


theorem stat_line_classification_witness:
  "\<not> inCodeBlock initial \<and> \<not> earlierRule (js ''users: 50'')
   \<and> COLON \<in> set (js ''users: 50'') \<and> \<not> startsWith (js ''users: 50'') (js ''http'')
   \<and> textBeforeColon (js ''users: 50'') = js ''users''
   \<and> textAfterColon (js ''users: 50'') = js ''50''
   \<and> SPACE \<notin> set (js ''users'') \<and> list_ex isDigit (js ''50'')
   \<and> step initial (js ''users: 50'') =
       initial\<lparr>currentSlide := pushContent (Stat (js ''users'') (js ''50'')) (currentSlide initial)\<rparr>
   \<and> list_ex (\<lambda>c. isDigit c \<or> c = COMMA) (js ''50'')"
proof -
  have a: "\<not> inCodeBlock initial"
    by (simp add: initial_def)
  have b: "\<not> earlierRule (js ''users: 50'')"
    by (simp add: earlierRule_def isBreakLine_def matchesHeader_def startsWith_def trim_def
        isWhiteSpace_def js_def)
  have c: "COLON \<in> set (js ''users: 50'')" "\<not> startsWith (js ''users: 50'') (js ''http'')"
    by (simp_all add: startsWith_def js_def)
  have d: "textBeforeColon (js ''users: 50'') = js ''users''"
    "textAfterColon (js ''users: 50'') = js ''50''"
    by (simp_all add: textBeforeColon_def textAfterColon_def trim_def isWhiteSpace_def js_def)
  have e: "SPACE \<notin> set (js ''users'')" "list_ex isDigit (js ''50'')" "js ''users'' \<noteq> []"
    "js ''50'' \<noteq> []"
    by (simp_all add: isDigit_def js_def)
  note t = stat_line_classification [of initial "js ''users: 50''" "js ''users''" "js ''50''"]
  from t a b c e have f: "step initial (js ''users: 50'') =
       initial\<lparr>currentSlide := pushContent (Stat (js ''users'') (js ''50'')) (currentSlide initial)\<rparr>"
    by (simp only: d) blast
  then have "currentSlide (step initial (js ''users: 50''))
               = pushContent (Stat (js ''users'') (js ''50'')) (currentSlide initial)"
    by simp
  with t a b have "list_ex (\<lambda>c. isDigit c \<or> c = COMMA) (js ''50'')"
    by blast
  with a b c d e f show ?thesis by blast
qed

text \<open>
  Claim C2 as stated fails for a key with a tab inside: the line \<^verbatim>\<open>a<TAB>b: 5\<close>
  becomes a stat block, although its key contains whitespace.
\<close>

theorem stat_key_with_tab_counterexample:
  "parseMarkdown (js ''a'' @ [0x09] @ js ''b: 5'')
     = [\<lparr>stype = ContentSlide, title = None,
          content = [Stat (js ''a'' @ [0x09] @ js ''b'') (js ''5'')]\<rparr>]
   \<and> \<not> earlierRule (js ''a'' @ [0x09] @ js ''b: 5'')
   \<and> textBeforeColon (js ''a'' @ [0x09] @ js ''b: 5'') = js ''a'' @ [0x09] @ js ''b''
   \<and> list_ex isWhiteSpace (js ''a'' @ [0x09] @ js ''b'')"
proof (intro conjI)
  show "parseMarkdown (js ''a'' @ [0x09] @ js ''b: 5'')
     = [\<lparr>stype = ContentSlide, title = None,
          content = [Stat (js ''a'' @ [0x09] @ js ''b'') (js ''5'')]\<rparr>]"
    by code_simp
  show "\<not> earlierRule (js ''a'' @ [0x09] @ js ''b: 5'')"
    by (simp add: earlierRule_def isBreakLine_def matchesHeader_def startsWith_def trim_def
        isWhiteSpace_def js_def)
  show "textBeforeColon (js ''a'' @ [0x09] @ js ''b: 5'') = js ''a'' @ [0x09] @ js ''b''"
    by (simp add: textBeforeColon_def trim_def isWhiteSpace_def js_def)
  show "list_ex isWhiteSpace (js ''a'' @ [0x09] @ js ''b'')"
    by (simp add: isWhiteSpace_def js_def)
qed

section \<open>The layout of list items\<close>

lemma js_append: "js (a @ b) = js a @ js b"
  by (simp add: js_def)

lemma startsWith_append [simp]: "startsWith (p @ s) p"
  by (simp add: startsWith_def)

text \<open>
  Claim C3, amended. For a slide with at least one list item, the renderer takes the
  ranked-list grid exactly when some list item contains an em-dash and a digit and there
  are at most 6 list items; otherwise the items are rendered as a plain bulleted list,
  which never throws. What is returned starts with the opening tag of the grid in the
  first case and with that of the bulleted list in the second. In particular, 6 items
  that all contain an em-dash and a digit take the grid, and 7 such items the bulleted
  list.
\<close>

theorem list_layout_choice:
  \<open>(listItems \<noteq> [] \<longrightarrow> list_ex looksRanked listItems \<and> length listItems \<le> 6 \<longrightarrow>
      listHtml listItems =
        (case mapE topItem listItems of
           Inl e \<Rightarrow> Inl e
         | Inr items \<Rightarrow>
             Inr (js ''            <div class="top-list">'' @ [NL] @ concat items
               @ js ''            </div>'' @ [NL])))
   \<and> (listItems \<noteq> [] \<longrightarrow> \<not> (list_ex looksRanked listItems \<and> length listItems \<le> 6) \<longrightarrow>
        listHtml listItems =
          Inr (js ''            <ul>'' @ [NL] @ concat (map plainItem listItems)
            @ js ''            </ul>'' @ [NL]))
   \<and> (listItems \<noteq> [] \<longrightarrow> listHtml listItems = Inr html \<longrightarrow>
        (startsWith html (js ''            <div class="top-list">'')
           \<longleftrightarrow> list_ex looksRanked listItems \<and> length listItems \<le> 6)
        \<and> (startsWith html (js ''            <ul>'')
           \<longleftrightarrow> \<not> (list_ex looksRanked listItems \<and> length listItems \<le> 6)))
   \<and> (listHtml listItems = Inl e \<longrightarrow>
        list_ex looksRanked listItems \<and> length listItems \<le> 6)
   \<and> (list_all looksRanked listItems \<longrightarrow> length listItems = 6 \<longrightarrow>
        listHtml listItems =
          (case mapE topItem listItems of
             Inl e \<Rightarrow> Inl e
           | Inr items \<Rightarrow>
               Inr (js ''            <div class="top-list">'' @ [NL] @ concat items
                 @ js ''            </div>'' @ [NL])))
   \<and> (list_all looksRanked listItems \<longrightarrow> length listItems = 7 \<longrightarrow>
        listHtml listItems =
          Inr (js ''            <ul>'' @ [NL] @ concat (map plainItem listItems)
            @ js ''            </ul>'' @ [NL]))\<close>
proof -
  have ul_not_grid: \<open>\<not> startsWith (js ''            <ul>'' @ s) (js ''            <div class="top-list">'')\<close>
    for s
    by (simp add: startsWith_def js_def)
  have grid_not_ul: \<open>\<not> startsWith (js ''            <div class="top-list">'' @ s) (js ''            <ul>'')\<close>
    for s
    by (simp add: startsWith_def js_def)
  have grid_grid: \<open>startsWith (js ''            <div class="top-list">'' @ s) (js ''            <div class="top-list">'')\<close>
    for s by simp
  have ul_ul: \<open>startsWith (js ''            <ul>'' @ s) (js ''            <ul>'')\<close>
    for s by simp
  have six: "list_ex looksRanked listItems \<and> length listItems \<le> 6"
    if "list_all looksRanked listItems" "length listItems = 6"
    using that by (cases listItems) auto
  show ?thesis
    using six 
    by (auto simp: listHtml_def isRankedList_def ul_not_grid grid_not_ul grid_grid ul_ul
        simp del: append_assoc
        split: sum.splits if_splits)
qed

text \<open>A list item with an em-dash and a digit, and what the two layouts make of it.\<close>

definition rankedItem :: block where
  "rankedItem = ListItem (js ''a '' @ [EMDASH] @ js '' 1'')"

definition rankedItemGrid :: jsstring where
  \<open>rankedItemGrid =
     js ''                <div class="top-item">'' @ [NL]
     @ js ''                    <span style="color: #7878EF; font-weight: 700;">a</span>'' @ [NL]
     @ js ''                    <span><strong>1</strong></span>'' @ [NL]
     @ js ''                </div>'' @ [NL]\<close>

definition rankedItemPlain :: jsstring where
  \<open>rankedItemPlain =
     js ''                <li><span class="highlight">a </span> '' @ [EMDASH] @ js '' 1</li>''
     @ [NL]\<close>

theorem list_layout_choice_witness:
  \<open>list_all looksRanked (replicate 6 rankedItem) \<and> length (replicate 6 rankedItem) = 6
   \<and> listHtml (replicate 6 rankedItem) =
       Inr (js ''            <div class="top-list">'' @ [NL] @ concat (replicate 6 rankedItemGrid)
         @ js ''            </div>'' @ [NL])
   \<and> list_all looksRanked (replicate 7 rankedItem) \<and> length (replicate 7 rankedItem) = 7
   \<and> listHtml (replicate 7 rankedItem) =
       Inr (js ''            <ul>'' @ [NL] @ concat (replicate 7 rankedItemPlain)
         @ js ''            </ul>'' @ [NL])\<close>
proof -
  have r: "looksRanked rankedItem"
    by (simp add: rankedItem_def js_def isDigit_def)
  have g: "topItem rankedItem = Inr rankedItemGrid"
    by code_simp
  have p: "plainItem rankedItem = rankedItemPlain"
    by code_simp
  have a6: "list_all looksRanked (replicate 6 rankedItem)" "length (replicate 6 rankedItem) = 6"
    by (simp_all add: r list_all_iff)
  have a7: "list_all looksRanked (replicate 7 rankedItem)" "length (replicate 7 rankedItem) = 7"
    by (simp_all add: r list_all_iff)
  have m: "mapE topItem (replicate n rankedItem) = Inr (replicate n rankedItemGrid)" for n
    by (induction n) (simp_all add: g)
  from list_layout_choice [of "replicate 6 rankedItem"] a6
  have \<open>listHtml (replicate 6 rankedItem) =
       Inr (js ''            <div class="top-list">'' @ [NL] @ concat (replicate 6 rankedItemGrid)
         @ js ''            </div>'' @ [NL])\<close>
    by (simp add: m)
  moreover from list_layout_choice [of "replicate 7 rankedItem"] a7
  have "listHtml (replicate 7 rankedItem) =
       Inr (js ''            <ul>'' @ [NL] @ concat (replicate 7 rankedItemPlain)
         @ js ''            </ul>'' @ [NL])"
    by (simp add: p)
  ultimately show ?thesis using a6 a7 by blast
qed

text \<open>
  Claim C3 as stated fails when only some of the items look ranked: of the two items
  \<^verbatim>\<open>a - 1\<close> (with an em-dash) and \<^verbatim>\<open>b\<close> the second has neither an em-dash nor a
  digit, and the grid is used all the same.
\<close>

theorem mixed_list_uses_grid_counterexample:
  \<open>\<not> list_all looksRanked [rankedItem, ListItem (js ''b'')]
   \<and> listHtml [rankedItem, ListItem (js ''b'')] =
       Inr (js ''            <div class="top-list">'' @ [NL] @ rankedItemGrid
         @ js ''            </div>'' @ [NL])\<close>
proof
  show "\<not> list_all looksRanked [rankedItem, ListItem (js ''b'')]"
    by (simp add: js_def)
  show \<open>listHtml [rankedItem, ListItem (js ''b'')] =
       Inr (js ''            <div class="top-list">'' @ [NL] @ rankedItemGrid
         @ js ''            </div>'' @ [NL])\<close>
    by code_simp
qed

section \<open>The order of the rendered blocks\<close>







section \<open>Escaping of code blocks\<close>


























section \<open>Items of the ranked grid\<close>






lemma firstMatch_here: "m (c # cs) = Some r \<Longrightarrow> firstMatch m (c # cs) = Some r"
  by simp
















section \<open>Inputs on which the renderer throws\<close>

text \<open>
  Claim C8 says that rendering never throws. It does on these two inputs, which the
  parser accepts: a stat whose value has \<^verbatim>\<open>(\<close> and \<^verbatim>\<open>%)\<close> but no parenthesised
  percentage, and a ranked list item whose name part has \<^verbatim>\<open>](\<close> but no bracketed text.
  In both the source reads index 1 of a \<^verbatim>\<open>null\<close> match.
\<close>

theorem renderer_throws_on_unmatched_percentage_and_link:
  "parseMarkdown (js ''cpu: 5 (high%)'')
     = [\<lparr>stype = ContentSlide, title = None,
          content = [Stat (js ''cpu'') (js ''5 (high%)'')]\<rparr>]
   \<and> generateHTML lc sh now (parseMarkdown (js ''cpu: 5 (high%)'')) = Inl TypeError
   \<and> parseMarkdown (js ''- ]( '' @ [EMDASH] @ js '' 5'')
     = [\<lparr>stype = ContentSlide, title = None,
          content = [ListItem (js '']( '' @ [EMDASH] @ js '' 5'')]\<rparr>]
   \<and> generateHTML lc sh now (parseMarkdown (js ''- ]( '' @ [EMDASH] @ js '' 5'')) = Inl TypeError"
proof -
  have p1: "parseMarkdown (js ''cpu: 5 (high%)'')
     = [\<lparr>stype = ContentSlide, title = None,
          content = [Stat (js ''cpu'') (js ''5 (high%)'')]\<rparr>]"
    by code_simp
  have p2: "parseMarkdown (js ''- ]( '' @ [EMDASH] @ js '' 5'')
     = [\<lparr>stype = ContentSlide, title = None,
          content = [ListItem (js '']( '' @ [EMDASH] @ js '' 5'')]\<rparr>]"
    by code_simp
  have s: "statsHtml [Stat (js ''cpu'') (js ''5 (high%)'')] = Inl TypeError"
    by code_simp
  have l: "listHtml [ListItem (js '']( '' @ [EMDASH] @ js '' 5'')] = Inl TypeError"
    by code_simp
  have "generateHTML lc sh now
      [\<lparr>stype = ContentSlide, title = None,
          content = [Stat (js ''cpu'') (js ''5 (high%)'')]\<rparr>] = Inl TypeError"
    using s by (simp add: generateHTML_def slideHTML_def slideFragment_def ofType_def)
  moreover have "generateHTML lc sh now
      [\<lparr>stype = ContentSlide, title = None,
          content = [ListItem (js '']( '' @ [EMDASH] @ js '' 5'')]\<rparr>] = Inl TypeError"
    using l by (simp add: generateHTML_def slideHTML_def slideFragment_def ofType_def statsHtml_def)
  ultimately show ?thesis
    by (simp only: p1 p2) 
qed

section \<open>Determinism\<close>

text \<open>
  Claim C9. Parsing and fragment generation are functions of their argument alone: equal
  texts give equal slide sequences and equal slide sequences give equal fragments. The
  only reading of the environment in \<^verbatim>\<open>generateHTML\<close>, the clock, is placed in the
  document behind the fragments, so for every clock reading the fragments embedded in
  the document are those of \<open>slideHTML\<close>, and whether the call throws does not depend
  on the clock.
\<close>

theorem parsing_and_fragments_are_deterministic:
  "(text1 = text2 \<longrightarrow> parseMarkdown text1 = parseMarkdown text2)
   \<and> (slides1 = slides2 \<longrightarrow> slideHTML lc slides1 = slideHTML lc slides2)
   \<and> generateHTML lc sh now (parseMarkdown text1) =
       (case slideHTML lc (parseMarkdown text1) of
          Inl e \<Rightarrow> Inl e
        | Inr fragments \<Rightarrow>
            Inr (docHead sh @ fragments @ docMiddle sh @ showNat now @ docTail sh))
   \<and> (generateHTML lc sh now1 slides1 = Inl e \<longleftrightarrow> generateHTML lc sh now2 slides1 = Inl e)"
  by (auto simp: generateHTML_def split: sum.splits)

text \<open>A small shell, and a document with one paragraph.\<close>

definition tinyShell :: shell where
  "tinyShell = \<lparr>docHead = js ''<body>'', docMiddle = js ''</body><script>'',
     docTail = js ''</script>''\<rparr>"

definition paragraphSlide :: slide where
  "paragraphSlide = \<lparr>stype = ContentSlide, title = None, content = [TextBlock (js ''x'')]\<rparr>"

lemma parse_paragraph: "parseMarkdown (js ''x'') = [paragraphSlide]"
  unfolding paragraphSlide_def by code_simp

lemma slideHTML_paragraph:
  "slideHTML lc [paragraphSlide] =
     Inr (slideHead lc paragraphSlide @ js ''            <p>x</p>'' @ [NL] @ slideFoot 1 0)"
  by (simp add: slideHTML_def slideFragment_def ofType_def paragraphSlide_def statsHtml_def
      listHtml_def js_def)

theorem parsing_and_fragments_are_deterministic_witness:
  "js ''x'' = js ''x'' \<and> [paragraphSlide] = [paragraphSlide]
   \<and> parseMarkdown (js ''x'') = [paragraphSlide]
   \<and> generateHTML (\<lambda>t. t) tinyShell 5 (parseMarkdown (js ''x'')) =
       Inr (js ''<body>''
         @ (slideHead (\<lambda>t. t) paragraphSlide @ js ''            <p>x</p>'' @ [NL] @ slideFoot 1 0)
         @ js ''</body><script>'' @ js ''5'' @ js ''</script>'')
   \<and> generateHTML (\<lambda>t. t) tinyShell 7 (parseMarkdown (js ''x'')) =
       Inr (js ''<body>''
         @ (slideHead (\<lambda>t. t) paragraphSlide @ js ''            <p>x</p>'' @ [NL] @ slideFoot 1 0)
         @ js ''</body><script>'' @ js ''7'' @ js ''</script>'')"
proof -
  have n: "showNat 5 = js ''5''" "showNat 7 = js ''7''"
    by (simp_all add: showNat.simps js_def)
  note t = parsing_and_fragments_are_deterministic
    [where ?text1.0 = "js ''x''" and lc = "\<lambda>t. t" and sh = tinyShell,
      THEN conjunct2, THEN conjunct2, THEN conjunct1]
  have "generateHTML (\<lambda>t. t) tinyShell now (parseMarkdown (js ''x'')) =
       Inr (js ''<body>''
         @ (slideHead (\<lambda>t. t) paragraphSlide @ js ''            <p>x</p>'' @ [NL] @ slideFoot 1 0)
         @ js ''</body><script>'' @ showNat now @ js ''</script>'')" for now
    using t [of now] by (simp add: parse_paragraph slideHTML_paragraph tinyShell_def)
  from this [of 5] this [of 7] show ?thesis
    by (simp only: n parse_paragraph)
qed

section \<open>A single-shot run\<close>

text \<open>
  Claim C10, amended. In a single-shot run: when reading, rendering and writing all
  succeed, the output file is written and the count of slides is logged. When reading
  the source file fails, or rendering throws, the failure is reported on the error
  stream, \<^verbatim>\<open>generateSlides\<close> returns false and the write primitive is not called, so
  the file system is the one from before. When the write fails, the failure is reported
  in the same way and the file system is what the write primitive left. In every case
  the process ends with exit status 0.
\<close>

theorem single_shot_outcomes:
  "(readFileSync h (fileSystem w) MARKDOWN_FILE = Inr markdown \<longrightarrow>
      generateHTML (toLowerCase h) sh (clock w) (parseMarkdown markdown) = Inr html \<longrightarrow>
      writeFileSync h (fileSystem w) OUTPUT_FILE html = (fs', None) \<longrightarrow>
        generateSlides h sh w =
          (w\<lparr>fileSystem := fs',
             consoleLog := consoleLog w
               @ [[0x2713] @ js '' Generated '' @ showNat (length (parseMarkdown markdown))
                  @ js '' slides in '' @ js ''index.html'']\<rparr>,
           True))
   \<and> (readFileSync h (fileSystem w) MARKDOWN_FILE = Inl e \<longrightarrow>
        generateSlides h sh w =
          (w\<lparr>consoleError := consoleError w @ [(js ''Error generating slides:'', e)]\<rparr>, False)
        \<and> fileSystem (fst (generateSlides h sh w)) = fileSystem w)
   \<and> (readFileSync h (fileSystem w) MARKDOWN_FILE = Inr markdown \<longrightarrow>
        generateHTML (toLowerCase h) sh (clock w) (parseMarkdown markdown) = Inl e \<longrightarrow>
        generateSlides h sh w =
          (w\<lparr>consoleError := consoleError w @ [(js ''Error generating slides:'', e)]\<rparr>, False)
        \<and> fileSystem (fst (generateSlides h sh w)) = fileSystem w)
   \<and> (readFileSync h (fileSystem w) MARKDOWN_FILE = Inr markdown \<longrightarrow>
        generateHTML (toLowerCase h) sh (clock w) (parseMarkdown markdown) = Inr html \<longrightarrow>
        writeFileSync h (fileSystem w) OUTPUT_FILE html = (fs', Some e) \<longrightarrow>
        generateSlides h sh w =
          (w\<lparr>fileSystem := fs',
             consoleError := consoleError w @ [(js ''Error generating slides:'', e)]\<rparr>, False))
   \<and> snd (singleShot h sh w) = 0"
  by (simp add: generateSlides_def reportError_def singleShot_def OUTPUT_FILE_def)

text \<open>
  A host whose file system is a list of paths with their contents: reading a missing
  path throws, writing puts the new content in front and does not throw.
\<close>

definition listHost :: "(jsstring \<times> jsstring) list host" where
  "listHost =
     \<lparr>toLowerCase = (\<lambda>t. t),
      readFileSync =
        (\<lambda>fs path. case map_of fs path of
                      None \<Rightarrow> Inl (SystemError (js ''ENOENT''))
                    | Some c \<Rightarrow> Inr c),
      writeFileSync = (\<lambda>fs path c. ((path, c) # fs, None))\<rparr>"

definition emptyWorld :: "(jsstring \<times> jsstring) list world" where
  "emptyWorld = \<lparr>fileSystem = [], clock = 5, consoleLog = [], consoleError = []\<rparr>"

definition sourceWorld :: "(jsstring \<times> jsstring) list world" where
  "sourceWorld =
     \<lparr>fileSystem = [(js ''text.md'', js ''x'')], clock = 5, consoleLog = [],
      consoleError = []\<rparr>"

definition paragraphDocument :: jsstring where
  "paragraphDocument =
     js ''<body>''
     @ (slideHead (\<lambda>t. t) paragraphSlide @ js ''            <p>x</p>'' @ [NL] @ slideFoot 1 0)
     @ js ''</body><script>'' @ js ''5'' @ js ''</script>''"

theorem single_shot_outcomes_witness:
  "readFileSync listHost (fileSystem emptyWorld) MARKDOWN_FILE = Inl (SystemError (js ''ENOENT''))
   \<and> generateSlides listHost tinyShell emptyWorld =
       (emptyWorld\<lparr>consoleError :=
          [(js ''Error generating slides:'', SystemError (js ''ENOENT''))]\<rparr>, False)
   \<and> readFileSync listHost (fileSystem sourceWorld) MARKDOWN_FILE = Inr (js ''x'')
   \<and> generateHTML (toLowerCase listHost) tinyShell (clock sourceWorld) (parseMarkdown (js ''x''))
       = Inr paragraphDocument
   \<and> writeFileSync listHost (fileSystem sourceWorld) OUTPUT_FILE paragraphDocument
       = ((js ''index.html'', paragraphDocument) # [(js ''text.md'', js ''x'')], None)
   \<and> generateSlides listHost tinyShell sourceWorld =
       (sourceWorld\<lparr>fileSystem :=
            (js ''index.html'', paragraphDocument) # [(js ''text.md'', js ''x'')],
          consoleLog := [[0x2713] @ js '' Generated '' @ js ''1'' @ js '' slides in ''
            @ js ''index.html'']\<rparr>, True)"
proof -
  have r0: "readFileSync listHost (fileSystem emptyWorld) MARKDOWN_FILE
      = Inl (SystemError (js ''ENOENT''))"
    by (simp add: listHost_def emptyWorld_def)
  have r1: "readFileSync listHost (fileSystem sourceWorld) MARKDOWN_FILE = Inr (js ''x'')"
    by (simp add: listHost_def sourceWorld_def MARKDOWN_FILE_def)
  have n: "showNat 5 = js ''5''" "showNat (Suc 0) = js ''1''"
    by (simp_all add: showNat.simps js_def)
  have g: "generateHTML (toLowerCase listHost) tinyShell (clock sourceWorld)
      (parseMarkdown (js ''x'')) = Inr paragraphDocument"
    by (simp add: generateHTML_def parse_paragraph slideHTML_paragraph listHost_def
        tinyShell_def sourceWorld_def paragraphDocument_def n)
  have wr: "writeFileSync listHost (fileSystem sourceWorld) OUTPUT_FILE paragraphDocument
       = ((js ''index.html'', paragraphDocument) # [(js ''text.md'', js ''x'')], None)"
    by (simp add: listHost_def sourceWorld_def OUTPUT_FILE_def)
  note t0 = single_shot_outcomes [where h = listHost and w = emptyWorld and sh = tinyShell,
      THEN conjunct2, THEN conjunct1, rule_format, OF r0, THEN conjunct1]
  note t1 = single_shot_outcomes [where h = listHost and w = sourceWorld and sh = tinyShell,
      THEN conjunct1, rule_format, OF r1 g wr]
  have "generateSlides listHost tinyShell emptyWorld =
       (emptyWorld\<lparr>consoleError :=
          [(js ''Error generating slides:'', SystemError (js ''ENOENT''))]\<rparr>, False)"
    using t0 by (simp add: emptyWorld_def)
  moreover have "generateSlides listHost tinyShell sourceWorld =
       (sourceWorld\<lparr>fileSystem :=
            (js ''index.html'', paragraphDocument) # [(js ''text.md'', js ''x'')],
          consoleLog := [[0x2713] @ js '' Generated '' @ js ''1'' @ js '' slides in ''
            @ js ''index.html'']\<rparr>, True)"
    using t1 by (simp add: sourceWorld_def parse_paragraph n)
  ultimately show ?thesis using r0 r1 g wr by blast
qed

text \<open>
  Claim C10 as stated fails in its exit status: when the source file is missing, the
  failure is reported and nothing is written, but the run ends with status 0.
\<close>

theorem read_failure_exit_status_counterexample:
  "readFileSync listHost (fileSystem emptyWorld) MARKDOWN_FILE = Inl (SystemError (js ''ENOENT''))
   \<and> singleShot listHost tinyShell emptyWorld =
       (emptyWorld\<lparr>consoleError :=
          [(js ''Error generating slides:'', SystemError (js ''ENOENT''))]\<rparr>, 0)"
  by (simp add: singleShot_def generateSlides_def reportError_def listHost_def emptyWorld_def)

end
